theory Spec2Isabelle
  imports Complex_Main "HOL-Library.Word" "HOL-Library.Multiset"
begin

unbundle bit_operations_syntax

section \<open>The ledger: tables, errors and the environment\<close>

text \<open>
  The repository keeps its state in two PostgreSQL tables, created by \<open>initTables\<close>:
  \<^verbatim>\<open>wallets (address TEXT PRIMARY KEY, balance FLOAT)\<close> and
  \<^verbatim>\<open>transactions (id SERIAL PRIMARY KEY, from_address TEXT, to_address TEXT,
  amount FLOAT, timestamp TIMESTAMP DEFAULT CURRENT_TIMESTAMP)\<close>.
  A table is the list of its rows in insertion order. Amounts and balances are
  \<open>float64\<close> in Go and \<open>FLOAT\<close> in the tables; here they are the real numbers they
  denote and \<open>balance - $1\<close>, \<open>balance + $1\<close> are exact, so rounding, infinities and
  NaN are outside this development. A timestamp is the server clock in microseconds.
  The columns carry the initial of their table (\<open>w_balance\<close>, \<open>t_amount\<close>), which
  leaves the plain names to the parameters of the Go functions.
\<close>

record wallet =
  w_address :: string
  w_balance :: real

record transaction_row =
  t_id :: nat
  t_from_address :: string
  t_to_address :: string
  t_amount :: real
  t_timestamp :: int

text \<open>
  \<open>transactions_id_seq\<close> is the sequence behind the \<open>SERIAL\<close> column: the last value
  it handed out. PostgreSQL does not take a sequence back when a unit is rolled back.
\<close>

record database =
  wallets :: "wallet list"
  transactions :: "transaction_row list"
  transactions_id_seq :: nat

text \<open>
  Every call into \<open>database/sql\<close> can fail (connection lost, statement refused). Which
  calls fail is not decided by the program: it is the parameter \<open>flt\<close> of the
  operations, a predicate on the call sites of the source.
\<close>

datatype db_call =
    Open
  | InitTables
  | InsertWallet nat
  | Begin
  | SelectSenderBalance
  | UpdateSender
  | UpdateReceiver
  | InsertTransaction
  | Commit
  | SelectBalance
  | QueryTransactions
  | ScanRow nat
  | RowsErr

type_synonym faults = "db_call \<Rightarrow> bool"

definition no_faults :: faults where
  "no_faults = (\<lambda>c. False)"

text \<open>
  The errors of the package, one constructor for each \<open>fmt.Errorf\<close> of the source;
  \<open>sql_error\<close> is the wrapped cause of a failed \<open>QueryRow(...).Scan\<close>:
  \<open>sql.ErrNoRows\<close> when no row matches, a driver error otherwise.
\<close>

datatype sql_error = ErrNoRows | DriverError

datatype error =
    FailedToBeginTransaction
  | FailedToGetSenderBalance sql_error
  | InsufficientFunds
  | FailedToUpdateSenderBalance
  | FailedToUpdateReceiverBalance
  | FailedToRecordTransaction
  | CommitError
  | FailedToGetBalance sql_error
  | FailedToQueryTransactions
  | FailedToScanTransaction
  | RowsError
  | FailedToGenerateRandomBytes
  | ExecError

section \<open>Statements\<close>

text \<open>\<^verbatim>\<open>SELECT balance FROM wallets WHERE address = $1\<close>, read by \<open>QueryRow(...).Scan\<close>:
  the first matching row, or \<open>sql.ErrNoRows\<close>.\<close>

definition select_balance :: "database \<Rightarrow> string \<Rightarrow> sql_error + real" where
  "select_balance db a =
     (case find (\<lambda>w. w_address w = a) (wallets db) of
        None \<Rightarrow> Inl ErrNoRows
      | Some w \<Rightarrow> Inr (w_balance w))"

text \<open>\<^verbatim>\<open>UPDATE wallets SET balance = <f balance> WHERE address = $2\<close>: every matching row
  is rewritten; a statement that matches no row changes nothing and is not an error.\<close>

definition update_balance :: "(real \<Rightarrow> real) \<Rightarrow> string \<Rightarrow> database \<Rightarrow> database" where
  "update_balance f a db =
     db\<lparr>wallets := map (\<lambda>w. if w_address w = a then w\<lparr>w_balance := f (w_balance w)\<rparr> else w) (wallets db)\<rparr>"

text \<open>\<^verbatim>\<open>INSERT INTO transactions (from_address, to_address, amount) VALUES ($1, $2, $3)\<close>:
  \<open>id\<close> is the next value of the sequence, \<open>timestamp\<close> the default \<open>CURRENT_TIMESTAMP\<close>
  (\<open>now\<close>, the clock of the server).\<close>

definition insert_transaction :: "int \<Rightarrow> string \<Rightarrow> string \<Rightarrow> real \<Rightarrow> database \<Rightarrow> database" where
  "insert_transaction now from to amount db =
     db\<lparr>transactions := transactions db @
          [\<lparr>t_id = Suc (transactions_id_seq db), t_from_address = from, t_to_address = to,
            t_amount = amount, t_timestamp = now\<rparr>],
        transactions_id_seq := Suc (transactions_id_seq db)\<rparr>"

section \<open>The unit of work\<close>

text \<open>
  \<open>r.db.Begin()\<close> opens a unit of work: \<open>store\<close> is the committed database, \<open>work\<close>
  the database as the statements of the unit see and change it. \<open>Commit\<close> makes \<open>work\<close>
  the committed database and closes the unit. \<open>Rollback\<close> on a closed unit does nothing
  (\<open>sql.ErrTxDone\<close>); on an open one it drops \<open>work\<close>, the sequence excepted.
  \<open>tx_Rollback\<close> gives the committed database after the call.
\<close>

record tx =
  store :: database
  work :: database
  closed :: bool

definition tx_Begin :: "database \<Rightarrow> tx" where
  "tx_Begin db = \<lparr>store = db, work = db, closed = False\<rparr>"

definition tx_Exec :: "(database \<Rightarrow> database) \<Rightarrow> tx \<Rightarrow> tx" where
  "tx_Exec stmt t = t\<lparr>work := stmt (work t)\<rparr>"

definition tx_Commit :: "tx \<Rightarrow> tx" where
  "tx_Commit t = t\<lparr>store := work t, closed := True\<rparr>"

definition tx_Rollback :: "tx \<Rightarrow> database" where
  "tx_Rollback t =
     (if closed t then store t
      else (store t)\<lparr>transactions_id_seq := transactions_id_seq (work t)\<rparr>)"

section \<open>PostgresRepository.Send\<close>

text \<open>
  The body of \<open>Send\<close> after \<open>Begin\<close>, statement by statement; it returns the error
  (\<open>None\<close> for \<open>nil\<close>) and the unit as the \<open>return\<close> leaves it. \<open>Send\<close> itself opens
  the unit and runs the deferred \<open>tx.Rollback()\<close> on whatever the body returns.
\<close>

definition Send_body :: "faults \<Rightarrow> int \<Rightarrow> tx \<Rightarrow> string \<Rightarrow> string \<Rightarrow> real \<Rightarrow> error option \<times> tx" where
  "Send_body flt now t from to amount =
     (case (if flt SelectSenderBalance then Inl DriverError else select_balance (work t) from) of
        Inl e \<Rightarrow> (Some (FailedToGetSenderBalance e), t)
      | Inr fromBalance \<Rightarrow>
          if fromBalance < amount then (Some InsufficientFunds, t)
          else if flt UpdateSender then (Some FailedToUpdateSenderBalance, t)
          else
            let t1 = tx_Exec (update_balance (\<lambda>b. b - amount) from) t in
            if flt UpdateReceiver then (Some FailedToUpdateReceiverBalance, t1)
            else
              let t2 = tx_Exec (update_balance (\<lambda>b. b + amount) to) t1 in
              if flt InsertTransaction then (Some FailedToRecordTransaction, t2)
              else
                let t3 = tx_Exec (insert_transaction now from to amount) t2 in
                if flt Commit then (Some CommitError, t3)
                else (None, tx_Commit t3))"

definition Send :: "faults \<Rightarrow> int \<Rightarrow> database \<Rightarrow> string \<Rightarrow> string \<Rightarrow> real \<Rightarrow> error option \<times> database" where
  "Send flt now db from to amount =
     (if flt Begin then (Some FailedToBeginTransaction, db)
      else case Send_body flt now (tx_Begin db) from to amount of
             (err, t) \<Rightarrow> (err, tx_Rollback t))"

section \<open>The read paths\<close>

text \<open>\<open>GetBalance\<close>: one \<open>SELECT\<close> outside any unit; the database is only read.\<close>

definition GetBalance :: "faults \<Rightarrow> database \<Rightarrow> string \<Rightarrow> error + real" where
  "GetBalance flt db address =
     (case (if flt SelectBalance then Inl DriverError else select_balance db address) of
        Inl e \<Rightarrow> Inl (FailedToGetBalance e)
      | Inr balance \<Rightarrow> Inr balance)"

text \<open>
  Modelled from the spec: \<open>models.Transaction\<close> is declared in the package
  \<open>payment-system/internal/models\<close>, which is not among the sources. Its fields are the
  four that \<open>rows.Scan\<close> fills in \<open>GetLastTransactions\<close>, in the order of the selected
  columns \<open>from_address, to_address, amount, timestamp\<close>; the \<open>id\<close> is not selected.
\<close>

record Transaction =
  From :: string
  To :: string
  Amount :: real
  CreatedAt :: int

definition Scan :: "transaction_row \<Rightarrow> Transaction" where
  "Scan r = \<lparr>From = t_from_address r, To = t_to_address r, Amount = t_amount r,
             CreatedAt = t_timestamp r\<rparr>"

text \<open>
  \<^verbatim>\<open>SELECT from_address, to_address, amount, timestamp FROM transactions
  ORDER BY timestamp DESC LIMIT $1\<close>. The only sort key is \<open>timestamp\<close>: the query
  fixes the order of two rows with different timestamps and says nothing about two rows
  with the same one, which come out in the order in which the executor happens to
  deliver them. That order is the parameter \<open>emit\<close>: the sequence in which the executor
  reads the rows of the table (a permutation of them), sorted stably by the key.
  PostgreSQL refuses a negative \<open>LIMIT\<close>.
\<close>

definition query_transactions ::
    "(transaction_row list \<Rightarrow> transaction_row list) \<Rightarrow> database \<Rightarrow> int \<Rightarrow> transaction_row list option" where
  "query_transactions emit db cnt =
     (if cnt < 0 then None
      else Some (take (nat cnt) (sort_key (\<lambda>r. - t_timestamp r) (emit (transactions db)))))"

text \<open>The loop \<open>for rows.Next()\<close>: row \<open>i\<close> is scanned and appended; a failed scan
  returns at once.\<close>

fun scan_rows :: "faults \<Rightarrow> nat \<Rightarrow> transaction_row list \<Rightarrow> Transaction list \<Rightarrow> error + Transaction list" where
  "scan_rows flt i [] ts = Inr ts"
| "scan_rows flt i (r # rows) ts =
     (if flt (ScanRow i) then Inl FailedToScanTransaction
      else scan_rows flt (Suc i) rows (ts @ [Scan r]))"

definition GetLastTransactions ::
    "faults \<Rightarrow> (transaction_row list \<Rightarrow> transaction_row list) \<Rightarrow> database \<Rightarrow> int \<Rightarrow> error + Transaction list" where
  "GetLastTransactions flt emit db cnt =
     (if flt QueryTransactions then Inl FailedToQueryTransactions
      else case query_transactions emit db cnt of
             None \<Rightarrow> Inl FailedToQueryTransactions
           | Some rows \<Rightarrow>
               (case scan_rows flt 0 rows [] of
                  Inl e \<Rightarrow> Inl e
                | Inr ts \<Rightarrow> if flt RowsErr then Inl RowsError else Inr ts))"

section \<open>Addresses and seeding\<close>

text \<open>
  \<open>hex.EncodeToString\<close> of the Go library: two characters of
  \<open>hextable = "0123456789abcdef"\<close> for each byte, the high nibble \<open>v >> 4\<close> first,
  then \<open>v & 0x0f\<close>.
\<close>

definition hextable :: string where
  "hextable = ''0123456789abcdef''"

fun EncodeToString :: "8 word list \<Rightarrow> string" where
  "EncodeToString [] = []"
| "EncodeToString (v # src) =
     hextable ! unat (drop_bit 4 v) # hextable ! unat (v AND 0x0f) # EncodeToString src"

text \<open>
  \<open>crypto/rand\<close> is the random source of the operating system. It is modelled by the
  bytes it is going to deliver: \<open>rand_Read n\<close> takes the next \<open>n\<close> of them and leaves
  the rest; a source that cannot deliver \<open>n\<close> bytes is the read that returns an error.
\<close>

definition rand_Read :: "nat \<Rightarrow> 8 word list \<Rightarrow> (8 word list \<times> 8 word list) option" where
  "rand_Read n rnd = (if length rnd < n then None else Some (take n rnd, drop n rnd))"

definition GenerateAddress :: "8 word list \<Rightarrow> error + (string \<times> 8 word list)" where
  "GenerateAddress rnd =
     (case rand_Read 32 rnd of
        None \<Rightarrow> Inl FailedToGenerateRandomBytes
      | Some (buffer, rnd') \<Rightarrow> Inr (EncodeToString buffer, rnd'))"

text \<open>\<open>log.Fatal\<close> ends the process: a function returns (\<open>Return\<close>) or the process
  is gone (\<open>LogFatal\<close>). What was written to the database before stays written.\<close>

datatype fatal =
    FailedToConnect
  | FailedToInitializeTables error
  | FailedToGenerateWallets error
  | FailedToGenerateWalletAddress error

datatype 'a outcome = Return 'a | LogFatal fatal

definition generateRandomAddress :: "8 word list \<Rightarrow> (string \<times> 8 word list) outcome" where
  "generateRandomAddress rnd =
     (case GenerateAddress rnd of
        Inl err \<Rightarrow> LogFatal (FailedToGenerateWalletAddress err)
      | Inr (address, rnd') \<Rightarrow> Return (address, rnd'))"

text \<open>\<^verbatim>\<open>INSERT INTO wallets (address, balance) VALUES ($1, $2)
  ON CONFLICT (address) DO NOTHING\<close>.\<close>

definition insert_wallet :: "string \<Rightarrow> real \<Rightarrow> database \<Rightarrow> database" where
  "insert_wallet address balance db =
     (if address \<in> set (map w_address (wallets db)) then db
      else db\<lparr>wallets := wallets db @ [\<lparr>w_address = address, w_balance = balance\<rparr>]\<rparr>)"

text \<open>
  \<open>initTables\<close>: both statements are \<open>CREATE TABLE IF NOT EXISTS\<close>. A store that has
  never been initialised is the database with two empty tables, so the statement leaves
  every database as it is.
\<close>

definition empty_database :: database where
  "empty_database = \<lparr>wallets = [], transactions = [], transactions_id_seq = 0\<rparr>"

definition initTables :: "faults \<Rightarrow> database \<Rightarrow> error option \<times> database" where
  "initTables flt db = (if flt InitTables then (Some ExecError, db) else (None, db))"

text \<open>
  \<open>generateWallets\<close>: the loop \<open>for i := 0; i < count; i++\<close>, from its state at
  iteration \<open>i\<close>. Each \<open>db.Exec\<close> is a unit of its own, so the rows inserted before a
  failure stay.
\<close>

function generateWallets_loop ::
    "faults \<Rightarrow> nat \<Rightarrow> nat \<Rightarrow> real \<Rightarrow> database \<Rightarrow> 8 word list \<Rightarrow> error option outcome \<times> database \<times> 8 word list" where
  "generateWallets_loop flt i cnt balance db rnd =
     (if i < cnt then
        (case generateRandomAddress rnd of
           LogFatal f \<Rightarrow> (LogFatal f, db, rnd)
         | Return (address, rnd') \<Rightarrow>
             if flt (InsertWallet i) then (Return (Some ExecError), db, rnd')
             else generateWallets_loop flt (Suc i) cnt balance (insert_wallet address balance db) rnd')
      else (Return None, db, rnd))"
  by pat_completeness auto
termination
  by (relation "measure (\<lambda>(flt, i, cnt, balance, db, rnd). cnt - i)") auto

declare generateWallets_loop.simps [simp del]

definition generateWallets ::
    "faults \<Rightarrow> database \<Rightarrow> nat \<Rightarrow> real \<Rightarrow> 8 word list \<Rightarrow> error option outcome \<times> database \<times> 8 word list" where
  "generateWallets flt db cnt balance rnd = generateWallets_loop flt 0 cnt balance db rnd"

text \<open>
  \<open>NewPostgresRepository\<close>, run at every start of the process: \<open>sql.Open\<close>,
  \<open>initTables\<close>, then \<open>generateWallets(db, 10, 100.0)\<close>. The repository it returns is
  the handle to the database, so the model returns the database.
\<close>

definition NewPostgresRepository ::
    "faults \<Rightarrow> database \<Rightarrow> 8 word list \<Rightarrow> unit outcome \<times> database \<times> 8 word list" where
  "NewPostgresRepository flt db rnd =
     (if flt Open then (LogFatal FailedToConnect, db, rnd)
      else case initTables flt db of
             (Some err, db1) \<Rightarrow> (LogFatal (FailedToInitializeTables err), db1, rnd)
           | (None, db1) \<Rightarrow>
               (case generateWallets flt db1 10 100 rnd of
                  (LogFatal f, db2, rnd') \<Rightarrow> (LogFatal f, db2, rnd')
                | (Return (Some err), db2, rnd') \<Rightarrow> (LogFatal (FailedToGenerateWallets err), db2, rnd')
                | (Return None, db2, rnd') \<Rightarrow> (Return (), db2, rnd')))"

section \<open>The service and the send handler\<close>

text \<open>The service passes every call on to the repository.\<close>

definition Service_GetBalance :: "faults \<Rightarrow> database \<Rightarrow> string \<Rightarrow> error + real" where
  "Service_GetBalance flt db address = GetBalance flt db address"

definition Service_Send :: "faults \<Rightarrow> int \<Rightarrow> database \<Rightarrow> string \<Rightarrow> string \<Rightarrow> real \<Rightarrow> error option \<times> database" where
  "Service_Send flt now db from to amount = Send flt now db from to amount"

definition Service_GetLastTransactions ::
    "faults \<Rightarrow> (transaction_row list \<Rightarrow> transaction_row list) \<Rightarrow> database \<Rightarrow> int \<Rightarrow> error + Transaction list" where
  "Service_GetLastTransactions flt emit db cnt = GetLastTransactions flt emit db cnt"

text \<open>
  \<open>isValidAddress\<close>: 64 characters that \<open>hex.DecodeString\<close> accepts, that is, digits
  and the letters a to f in either case (the length is even).
\<close>

definition fromHexChar :: "char \<Rightarrow> bool" where
  "fromHexChar c = (c \<in> set ''0123456789abcdefABCDEF'')"

definition isValidAddress :: "string \<Rightarrow> bool" where
  "isValidAddress address = (length address = 64 \<and> list_all fromHexChar address)"

text \<open>
  A request as \<open>SendHandler\<close> reads it: the method, the \<open>Content-Type\<close> header and the
  body as \<open>json.Decode\<close> returns it (\<open>None\<close> when decoding fails). The response is the
  status code with the text written, which for an error of the service is its message.
\<close>

record send_body =
  req_From :: string
  req_To :: string
  req_Amount :: real

record request =
  Method :: string
  ContentType :: string
  Body :: "send_body option"

datatype response_text = Plain string | ErrorOf error

datatype response = Response nat response_text

definition SendHandler :: "faults \<Rightarrow> int \<Rightarrow> database \<Rightarrow> request \<Rightarrow> response \<times> database" where
  "SendHandler flt now db r =
     (if Method r \<noteq> ''POST'' then (Response 405 (Plain ''Method not allowed''), db)
      else if ContentType r \<noteq> ''application/json''
        then (Response 400 (Plain ''Invalid Content-Type, expected application/json''), db)
      else case Body r of
             None \<Rightarrow> (Response 400 (Plain ''Invalid request body''), db)
           | Some req \<Rightarrow>
               if req_Amount req \<le> 0
                 then (Response 400 (Plain ''Amount must be greater than 0''), db)
               else if \<not> (isValidAddress (req_From req) \<and> isValidAddress (req_To req))
                 then (Response 400 (Plain ''Invalid wallet address''), db)
               else (case Service_Send flt now db (req_From req) (req_To req) (req_Amount req) of
                       (Some err, db') \<Rightarrow> (Response 400 (ErrorOf err), db')
                     | (None, db') \<Rightarrow> (Response 200 (Plain []), db')))"

section \<open>Runs of the service\<close>

text \<open>
  The three operations of the service. Only \<open>Send\<close> writes: the two reads are
  \<open>SELECT\<close> statements and leave the database as it is. A run executes the
  operations one after the other, each with the faults and the clock it meets.
\<close>

datatype operation =
    OpSend string string real
  | OpGetBalance string
  | OpGetLastTransactions int

fun apply_operation :: "faults \<Rightarrow> int \<Rightarrow> database \<Rightarrow> operation \<Rightarrow> database" where
  "apply_operation flt now db (OpSend from to amount) = snd (Service_Send flt now db from to amount)"
| "apply_operation flt now db (OpGetBalance address) = db"
| "apply_operation flt now db (OpGetLastTransactions cnt) = db"

fun run :: "database \<Rightarrow> (faults \<times> int \<times> operation) list \<Rightarrow> database" where
  "run db [] = db"
| "run db ((flt, now, x) # xs) = run (apply_operation flt now db x) xs"


definition solvent :: "database \<Rightarrow> bool" where
  "solvent db = list_all (\<lambda>w. 0 \<le> w_balance w) (wallets db)"

definition total_balance :: "database \<Rightarrow> real" where
  "total_balance db = sum_list (map w_balance (wallets db))"

section \<open>Invariants and preconditions\<close>

text \<open>\<open>address\<close> is the primary key of \<open>wallets\<close>: PostgreSQL keeps the addresses of
  the table pairwise different.\<close>

definition primary_key :: "database \<Rightarrow> bool" where
  "primary_key db = distinct (map w_address (wallets db))"


text \<open>The addresses that the next \<open>k\<close> calls of \<open>GenerateAddress\<close> return, on a
  source that holds enough bytes.\<close>

fun addresses_of :: "nat \<Rightarrow> 8 word list \<Rightarrow> string list" where
  "addresses_of 0 rnd = []"
| "addresses_of (Suc k) rnd = EncodeToString (take 32 rnd) # addresses_of k (drop 32 rnd)"

section \<open>Example ledgers\<close>

text \<open>
  The ledger of the scenarios: wallet \<open>W1\<close> with balance 100, wallet \<open>W2\<close> with
  balance 0, no transaction yet; \<open>unknown_address\<close> is a well-formed address with no
  wallet.
\<close>

definition W1 :: string where
  "W1 = ''1111111111111111111111111111111111111111111111111111111111111111''"

definition W2 :: string where
  "W2 = ''2222222222222222222222222222222222222222222222222222222222222222''"

definition unknown_address :: string where
  "unknown_address = ''00000000000000000000000000000000000000000000000000000000deadbeef''"

definition ledger :: database where
  "ledger = \<lparr>wallets = [\<lparr>w_address = W1, w_balance = 100\<rparr>, \<lparr>w_address = W2, w_balance = 0\<rparr>],
             transactions = [], transactions_id_seq = 0\<rparr>"


text \<open>Three transfers \<open>T1\<close>, \<open>T2\<close>, \<open>T3\<close> at the clock readings 1, 2 and 3.\<close>

definition three_transfers :: database where
  "three_transfers = run ledger [(no_faults, 1, OpSend W1 W2 10), (no_faults, 2, OpSend W2 W1 5),
                                 (no_faults, 3, OpSend W1 W2 20)]"

text \<open>Two transfers that get the same clock reading.\<close>

definition tied_transfers :: database where
  "tied_transfers = run ledger [(no_faults, 5, OpSend W1 W2 1), (no_faults, 5, OpSend W1 W2 2)]"

text \<open>The store in which every call succeeds but \<open>Commit\<close>.\<close>

definition commit_fails :: faults where
  "commit_fails = (\<lambda>c. c = Commit)"

text \<open>A request to send nothing.\<close>

definition zero_request :: request where
  "zero_request = \<lparr>Method = ''POST'', ContentType = ''application/json'',
                    Body = Some \<lparr>req_From = W1, req_To = W2, req_Amount = 0\<rparr>\<rparr>"

text \<open>A request to send 30 from \<open>W1\<close> to \<open>W2\<close>.\<close>

definition transfer_request :: request where
  "transfer_request = \<lparr>Method = ''POST'', ContentType = ''application/json'',
                        Body = Some \<lparr>req_From = W1, req_To = W2, req_Amount = 30\<rparr>\<rparr>"

text \<open>Thirty-three bytes of a random source.\<close>

definition sample_bytes :: "8 word list" where
  "sample_bytes =
     [0x00, 0x01, 0x23, 0x45, 0x67, 0x89, 0xab, 0xcd, 0xef, 0xff, 0x10, 0x20, 0x30, 0x40, 0x50, 0x60,
      0x70, 0x80, 0x90, 0xa0, 0xb0, 0xc0, 0xd0, 0xe0, 0xf0, 0x0f, 0x1e, 0x2d, 0x3c, 0x4b, 0x5a, 0x69,
      0x78]"

text \<open>
  Two starts of the process on the same store. The random source delivers 32 bytes for
  each of the twenty addresses, the bytes of the first start in \<open>entropy1\<close>, those of the
  second in \<open>entropy2\<close>; the twenty addresses are pairwise different.
\<close>

definition entropy1 :: "8 word list" where
  "entropy1 =
     replicate 32 0x10 @ replicate 32 0x11 @ replicate 32 0x12 @ replicate 32 0x13
       @ replicate 32 0x14 @ replicate 32 0x15 @ replicate 32 0x16 @ replicate 32 0x17
       @ replicate 32 0x18 @ replicate 32 0x19"

definition entropy2 :: "8 word list" where
  "entropy2 =
     replicate 32 0xa0 @ replicate 32 0xa1 @ replicate 32 0xa2 @ replicate 32 0xa3
       @ replicate 32 0xa4 @ replicate 32 0xa5 @ replicate 32 0xa6 @ replicate 32 0xa7
       @ replicate 32 0xa8 @ replicate 32 0xa9"

definition first_start :: "unit outcome \<times> database \<times> 8 word list" where
  "first_start = NewPostgresRepository no_faults empty_database (entropy1 @ entropy2)"

definition second_start :: "unit outcome \<times> database \<times> 8 word list" where
  "second_start = NewPostgresRepository no_faults (fst (snd first_start)) (snd (snd first_start))"

section \<open>Properties of Send\<close>

lemma Send_body_error_open:
  "Send_body flt now t from to amount = (Some e, t') \<Longrightarrow> store t' = store t \<and> closed t' = closed t"
  by (auto simp: Send_body_def tx_Exec_def Let_def split: sum.splits if_splits)

lemma Send_error_rolls_back:
  assumes "Send flt now db from to amount = (Some e, db')"
  shows "wallets db' = wallets db \<and> transactions db' = transactions db"
proof (cases "flt Begin")
  case True
  with assms show ?thesis by (simp add: Send_def)
next
  case False
  obtain err t where b: "Send_body flt now (tx_Begin db) from to amount = (err, t)"
    by (cases "Send_body flt now (tx_Begin db) from to amount")
  with assms False have e: "err = Some e" and d: "db' = tx_Rollback t"
    by (simp_all add: Send_def)
  from b e have "store t = store (tx_Begin db) \<and> closed t = closed (tx_Begin db)"
    by (simp add: Send_body_error_open)
  then have "store t = db \<and> closed t = False"
    by (simp add: tx_Begin_def)
  with d show ?thesis by (simp add: tx_Rollback_def)
qed


lemma Send_success:
  assumes "Send flt now db from to amount = (None, db')"
  shows "db' = insert_transaction now from to amount
                 (update_balance (\<lambda>b. b + amount) to (update_balance (\<lambda>b. b - amount) from db))"
  using assms
  by (auto simp add: Send_def Send_body_def tx_Begin_def tx_Exec_def tx_Commit_def tx_Rollback_def
      Let_def split: if_splits sum.splits)

lemma Send_success_funds:
  assumes "Send flt now db from to amount = (None, db')"
  shows "\<exists>b. select_balance db from = Inr b \<and> amount \<le> b"
  using assms
  by (auto simp add: Send_def Send_body_def tx_Begin_def tx_Exec_def tx_Commit_def tx_Rollback_def
      Let_def split: if_splits sum.splits)

subsection \<open>Updates of one wallet\<close>

lemma find_address:
  "find (\<lambda>w. w_address w = b) ws = Some x \<Longrightarrow> w_address x = b \<and> x \<in> set ws"
  by (induction ws) (auto split: if_splits)

lemma find_map_update:
  "find (\<lambda>w. w_address w = b)
     (map (\<lambda>w. if w_address w = a then w\<lparr>w_balance := f (w_balance w)\<rparr> else w) ws)
   = map_option (\<lambda>w. if w_address w = a then w\<lparr>w_balance := f (w_balance w)\<rparr> else w)
       (find (\<lambda>w. w_address w = b) ws)"
  by (induction ws) auto

lemma select_balance_update:
  "select_balance (update_balance f a db) b =
     map_sum id (if a = b then f else id) (select_balance db b)"
  by (auto simp add: select_balance_def update_balance_def find_map_update
      split: option.splits dest: find_address)

lemma select_balance_insert_transaction:
  "select_balance (insert_transaction now from to amount db) a = select_balance db a"
  by (simp add: select_balance_def insert_transaction_def)


lemma addresses_update_balance:
  "map w_address (wallets (update_balance f a db)) = map w_address (wallets db)"
  by (simp add: update_balance_def comp_def)

lemma sum_list_update_balance:
  assumes "distinct (map w_address ws)" "find (\<lambda>w. w_address w = a) ws = Some x"
  shows "sum_list (map w_balance
           (map (\<lambda>w. if w_address w = a then w\<lparr>w_balance := f (w_balance w)\<rparr> else w) ws))
         = sum_list (map w_balance ws) - w_balance x + f (w_balance x)"
  using assms
proof (induction ws)
  case Nil
  then show ?case by simp
next
  case (Cons w ws)
  show ?case
  proof (cases "w_address w = a")
    case True
    with Cons.prems have "a \<notin> set (map w_address ws)" and "x = w" by auto
    then have "map (\<lambda>w. if w_address w = a then w\<lparr>w_balance := f (w_balance w)\<rparr> else w) ws = ws"
      by (induction ws) auto
    with True \<open>x = w\<close> show ?thesis by simp
  next
    case False
    with Cons show ?thesis by simp
  qed
qed

lemma total_balance_update:
  assumes "primary_key db" "select_balance db a = Inr b"
  shows "total_balance (update_balance f a db) = total_balance db - b + f b"
proof -
  from assms(2) obtain x where "find (\<lambda>w. w_address w = a) (wallets db) = Some x" "w_balance x = b"
    by (auto simp: select_balance_def split: option.splits)
  with assms(1) show ?thesis
    by (simp add: primary_key_def total_balance_def update_balance_def sum_list_update_balance
        del: map_map)
qed

subsection \<open>Solvency\<close>

lemma solvent_credit:
  "solvent db \<Longrightarrow> 0 \<le> amount \<Longrightarrow> solvent (update_balance (\<lambda>b. b + amount) a db)"
  by (auto simp add: solvent_def update_balance_def list_all_iff)

lemma solvent_insert_transaction:
  "solvent (insert_transaction now from to amount db) = solvent db"
  by (simp add: solvent_def insert_transaction_def)

lemma solvent_debit:
  assumes "solvent db" "primary_key db" "select_balance db a = Inr b" "amount \<le> b"
  shows "solvent (update_balance (\<lambda>b. b - amount) a db)"
proof -
  from assms(3) obtain x
    where x: "find (\<lambda>w. w_address w = a) (wallets db) = Some x" "w_balance x = b"
    by (auto simp: select_balance_def split: option.splits)
  then have xa: "w_address x = a" "x \<in> set (wallets db)"
    by (auto dest: find_address)
  have "w = x" if "w \<in> set (wallets db)" "w_address w = a" for w
    using that xa assms(2) by (auto simp: primary_key_def distinct_map dest: inj_onD)
  with assms(1,4) x(2) show ?thesis
    by (auto simp add: solvent_def update_balance_def list_all_iff)
qed

lemma Send_addresses:
  "map w_address (wallets (snd (Send flt now db from to amount))) = map w_address (wallets db)"
proof (cases "Send flt now db from to amount")
  case (Pair err db')
  show ?thesis
  proof (cases err)
    case None
    with Pair have s: "Send flt now db from to amount = (None, db')" by simp
    show ?thesis
      unfolding s Send_success [OF s]
      by (simp add: insert_transaction_def addresses_update_balance)
  next
    case (Some e)
    with Pair have s: "Send flt now db from to amount = (Some e, db')" by simp
    from Send_error_rolls_back [OF s] show ?thesis
      by (simp add: s)
  qed
qed

lemma Send_solvent:
  assumes "primary_key db" "solvent db" "0 \<le> amount"
  shows "solvent (snd (Send flt now db from to amount))"
proof (cases "Send flt now db from to amount")
  case (Pair err db')
  show ?thesis
  proof (cases err)
    case None
    with Pair have s: "Send flt now db from to amount = (None, db')" by simp
    from Send_success_funds [OF s] obtain b
      where b: "select_balance db from = Inr b" "amount \<le> b"
      by blast
    have "solvent (update_balance (\<lambda>b. b - amount) from db)"
      using assms(2,1) b by (rule solvent_debit)
    then have "solvent (update_balance (\<lambda>b. b + amount) to
                          (update_balance (\<lambda>b. b - amount) from db))"
      using assms(3) by (rule solvent_credit)
    then show ?thesis
      unfolding s Send_success [OF s]
      by (simp add: solvent_insert_transaction)
  next
    case (Some e)
    with Pair have s: "Send flt now db from to amount = (Some e, db')" by simp
    from Send_error_rolls_back [OF s] assms(2) show ?thesis
      by (simp add: s solvent_def)
  qed
qed

lemma Send_invariant:
  assumes "primary_key db" "solvent db" "0 \<le> amount" "Send flt now db from to amount = (err, db')"
  shows "primary_key db' \<and> solvent db'"
proof -
  have "db' = snd (Send flt now db from to amount)"
    using assms(4) by simp
  with assms(1-3) show ?thesis
    by (simp add: Send_solvent primary_key_def Send_addresses)
qed



section \<open>Properties of the transaction query\<close>

lemma scan_rows_no_faults:
  "(\<And>i. \<not> flt (ScanRow i)) \<Longrightarrow> scan_rows flt i rows ts = Inr (ts @ map Scan rows)"
  by (induction rows arbitrary: i ts) simp_all

lemma most_recent_first_sorted:
  "sorted_wrt (\<lambda>r s. t_timestamp s \<le> t_timestamp r) (sort_key (\<lambda>r. - t_timestamp r) rows)"
proof -
  have "sorted (map (\<lambda>r. - t_timestamp r) (sort_key (\<lambda>r. - t_timestamp r) rows))"
    by (rule sorted_sort_key)
  then show ?thesis by (simp add: sorted_map)
qed

text \<open>With pairwise different timestamps, the order of delivery does not matter.\<close>

lemma most_recent_first_unique:
  assumes "mset rows' = mset rows" "distinct (map t_timestamp rows)"
  shows "sort_key (\<lambda>r. - t_timestamp r) rows' = rev (sort_key t_timestamp rows)"
proof (rule sort_key_inj_key_eq)
  show "mset rows' = mset (rev (sort_key t_timestamp rows))"
    using assms(1) by simp
  from assms(1) have "set rows' = set rows" by (rule mset_eq_setD)
  moreover from assms(2) have "inj_on t_timestamp (set rows)" by (simp add: distinct_map)
  ultimately show "inj_on (\<lambda>r. - t_timestamp r) (set rows')"
    by (auto simp: inj_on_def)
  have "sorted (map t_timestamp (sort_key t_timestamp rows))"
    by (rule sorted_sort_key)
  then show "sorted (map (\<lambda>r. - t_timestamp r) (rev (sort_key t_timestamp rows)))"
    by (simp add: sorted_map sorted_wrt_rev)
qed

lemma take_sorted_bounds:
  assumes "sorted_wrt P ys"
  shows "\<forall>r\<in>set (take n ys). \<forall>s\<in>set (drop n ys). P r s"
proof -
  from assms have "sorted_wrt P (take n ys @ drop n ys)" by simp
  then show ?thesis unfolding sorted_wrt_append by blast
qed

section \<open>Properties of the address generator and of seeding\<close>

lemma length_hextable: "length hextable = 16"
  by (simp add: hextable_def)

lemma hextable_high: "hextable ! unat (drop_bit 4 (v :: 8 word)) \<in> set hextable"
proof -
  have "unat v < 256" using unsigned_less [of v] by simp
  then have "unat v div 2 ^ 4 < 16" by simp
  moreover have "unat (drop_bit 4 v) = drop_bit 4 (unat v)"
    by (rule unat_drop_bit_eq)
  moreover have "drop_bit 4 (unat v) = unat v div 2 ^ 4"
    by (rule drop_bit_eq_div)
  ultimately have "unat (drop_bit 4 v) < 16"
    by (simp only:)
  then show ?thesis by (simp add: length_hextable)
qed

lemma hextable_low: "hextable ! unat ((v :: 8 word) AND 0x0f) \<in> set hextable"
proof -
  have "unat (v AND 15) \<le> unat (15 :: 8 word)"
    by (rule word_and_le1 [THEN word_le_nat_alt [THEN iffD1]])
  then have "unat (v AND 0x0f) < 16" by simp
  then show ?thesis by (simp add: length_hextable)
qed

lemma length_EncodeToString: "length (EncodeToString src) = 2 * length src"
  by (induction src) simp_all

lemma set_EncodeToString: "set (EncodeToString src) \<subseteq> set hextable"
  by (induction src) (simp_all add: hextable_high hextable_low)

lemma GenerateAddress_sample:
  "GenerateAddress sample_bytes =
     Inr (''000123456789abcdefff102030405060708090a0b0c0d0e0f00f1e2d3c4b5a69'', [0x78])"
  by (simp add: GenerateAddress_def rand_Read_def sample_bytes_def hextable_def drop_bit_eq_div)

text \<open>
  Seeding with fresh addresses: when no call fails and the next \<open>cnt - i\<close> addresses of
  the source are pairwise different and not yet in the table, the loop appends one
  wallet for each of them.
\<close>

lemma generateWallets_loop_fresh:
  assumes "\<forall>j. \<not> flt (InsertWallet j)"
  shows "32 * (cnt - i) \<le> length rnd \<Longrightarrow> distinct (addresses_of (cnt - i) rnd) \<Longrightarrow>
         set (addresses_of (cnt - i) rnd) \<inter> set (map w_address (wallets db)) = {} \<Longrightarrow>
         generateWallets_loop flt i cnt balance db rnd =
           (Return None,
            db\<lparr>wallets := wallets db @
                 map (\<lambda>a. \<lparr>w_address = a, w_balance = balance\<rparr>) (addresses_of (cnt - i) rnd)\<rparr>,
            drop (32 * (cnt - i)) rnd)"
proof (induction "cnt - i" arbitrary: i db rnd)
  case 0
  then show ?case by (simp add: generateWallets_loop.simps)
next
  case (Suc k)
  from Suc.hyps(2) have i: "i < cnt" "cnt - i = Suc k" "k = cnt - Suc i" by simp_all
  let ?a = "EncodeToString (take 32 rnd)"
  from Suc.prems i have len: "32 \<le> length rnd" "32 * k \<le> length (drop 32 rnd)" by simp_all
  from Suc.prems i
  have fresh: "?a \<notin> set (map w_address (wallets db))" "?a \<notin> set (addresses_of k (drop 32 rnd))"
      "distinct (addresses_of k (drop 32 rnd))"
      "set (addresses_of k (drop 32 rnd)) \<inter> set (map w_address (wallets db)) = {}"
    by auto
  let ?db = "insert_wallet ?a balance db"
  have db: "?db = db\<lparr>wallets := wallets db @ [\<lparr>w_address = ?a, w_balance = balance\<rparr>]\<rparr>"
    using fresh(1) by (simp add: insert_wallet_def)
  have gen: "generateRandomAddress rnd = Return (?a, drop 32 rnd)"
    using len(1) by (simp add: generateRandomAddress_def GenerateAddress_def rand_Read_def)
  have "generateWallets_loop flt (Suc i) cnt balance ?db (drop 32 rnd) =
          (Return None,
           ?db\<lparr>wallets := wallets ?db @
                map (\<lambda>a. \<lparr>w_address = a, w_balance = balance\<rparr>)
                  (addresses_of (cnt - Suc i) (drop 32 rnd))\<rparr>,
           drop (32 * (cnt - Suc i)) (drop 32 rnd))"
  proof (rule Suc.hyps(1))
    show "k = cnt - Suc i" by (rule i(3))
    show "32 * (cnt - Suc i) \<le> length (drop 32 rnd)" using len(2) i(3) by simp
    show "distinct (addresses_of (cnt - Suc i) (drop 32 rnd))" using fresh(3) i(3) by simp
    show "set (addresses_of (cnt - Suc i) (drop 32 rnd)) \<inter> set (map w_address (wallets ?db)) = {}"
      using fresh(2,4) i(3) by (simp add: db)
  qed
  moreover have "generateWallets_loop flt i cnt balance db rnd =
      generateWallets_loop flt (Suc i) cnt balance ?db (drop 32 rnd)"
    using i(1) gen assms by (subst generateWallets_loop.simps) simp
  ultimately show ?case
    using i by (simp add: db add.commute)
qed

lemma NewPostgresRepository_fresh:
  assumes "\<forall>c. \<not> flt c" "320 \<le> length rnd" "distinct (addresses_of 10 rnd)"
      and "set (addresses_of 10 rnd) \<inter> set (map w_address (wallets db)) = {}"
  shows "NewPostgresRepository flt db rnd =
           (Return (),
            db\<lparr>wallets := wallets db @
                 map (\<lambda>a. \<lparr>w_address = a, w_balance = 100\<rparr>) (addresses_of 10 rnd)\<rparr>,
            drop 320 rnd)"
proof -
  have "generateWallets_loop flt 0 10 100 db rnd =
           (Return None,
            db\<lparr>wallets := wallets db @
                 map (\<lambda>a. \<lparr>w_address = a, w_balance = 100\<rparr>) (addresses_of (10 - 0) rnd)\<rparr>,
            drop (32 * (10 - 0)) rnd)"
    using assms by (intro generateWallets_loop_fresh) simp_all
  with assms(1) show ?thesis
    by (simp add: NewPostgresRepository_def initTables_def generateWallets_def)
qed

lemma addresses_of_numeral:
  "addresses_of (numeral k) rnd =
     EncodeToString (take 32 rnd) # addresses_of (pred_numeral k) (drop 32 rnd)"
  by (simp add: numeral_eq_Suc)

lemma replicate_numeral:
  "replicate (numeral k) x = x # replicate (pred_numeral k) x"
  by (simp add: numeral_eq_Suc)

lemma length_entropy: "length entropy1 = 320" "length entropy2 = 320"
  by (simp_all add: entropy1_def entropy2_def)

lemma addresses_entropy1:
  "addresses_of 10 (entropy1 @ rnd) =
     [''1010101010101010101010101010101010101010101010101010101010101010'',
      ''1111111111111111111111111111111111111111111111111111111111111111'',
      ''1212121212121212121212121212121212121212121212121212121212121212'',
      ''1313131313131313131313131313131313131313131313131313131313131313'',
      ''1414141414141414141414141414141414141414141414141414141414141414'',
      ''1515151515151515151515151515151515151515151515151515151515151515'',
      ''1616161616161616161616161616161616161616161616161616161616161616'',
      ''1717171717171717171717171717171717171717171717171717171717171717'',
      ''1818181818181818181818181818181818181818181818181818181818181818'',
      ''1919191919191919191919191919191919191919191919191919191919191919'']"
  by (simp add: entropy1_def addresses_of_numeral replicate_numeral hextable_def drop_bit_eq_div)

lemma addresses_entropy2:
  "addresses_of 10 entropy2 =
     [''a0a0a0a0a0a0a0a0a0a0a0a0a0a0a0a0a0a0a0a0a0a0a0a0a0a0a0a0a0a0a0a0'',
      ''a1a1a1a1a1a1a1a1a1a1a1a1a1a1a1a1a1a1a1a1a1a1a1a1a1a1a1a1a1a1a1a1'',
      ''a2a2a2a2a2a2a2a2a2a2a2a2a2a2a2a2a2a2a2a2a2a2a2a2a2a2a2a2a2a2a2a2'',
      ''a3a3a3a3a3a3a3a3a3a3a3a3a3a3a3a3a3a3a3a3a3a3a3a3a3a3a3a3a3a3a3a3'',
      ''a4a4a4a4a4a4a4a4a4a4a4a4a4a4a4a4a4a4a4a4a4a4a4a4a4a4a4a4a4a4a4a4'',
      ''a5a5a5a5a5a5a5a5a5a5a5a5a5a5a5a5a5a5a5a5a5a5a5a5a5a5a5a5a5a5a5a5'',
      ''a6a6a6a6a6a6a6a6a6a6a6a6a6a6a6a6a6a6a6a6a6a6a6a6a6a6a6a6a6a6a6a6'',
      ''a7a7a7a7a7a7a7a7a7a7a7a7a7a7a7a7a7a7a7a7a7a7a7a7a7a7a7a7a7a7a7a7'',
      ''a8a8a8a8a8a8a8a8a8a8a8a8a8a8a8a8a8a8a8a8a8a8a8a8a8a8a8a8a8a8a8a8'',
      ''a9a9a9a9a9a9a9a9a9a9a9a9a9a9a9a9a9a9a9a9a9a9a9a9a9a9a9a9a9a9a9a9'']"
  by (simp add: entropy2_def addresses_of_numeral replicate_numeral hextable_def drop_bit_eq_div)

lemma first_start_eq:
  "first_start =
     (Return (),
      \<lparr>wallets = map (\<lambda>a. \<lparr>w_address = a, w_balance = 100\<rparr>) (addresses_of 10 (entropy1 @ entropy2)),
       transactions = [], transactions_id_seq = 0\<rparr>,
      entropy2)"
proof -
  have "NewPostgresRepository no_faults empty_database (entropy1 @ entropy2) =
          (Return (),
           empty_database\<lparr>wallets := wallets empty_database @
              map (\<lambda>a. \<lparr>w_address = a, w_balance = 100\<rparr>) (addresses_of 10 (entropy1 @ entropy2))\<rparr>,
           drop 320 (entropy1 @ entropy2))"
  proof (rule NewPostgresRepository_fresh)
    show "\<forall>c. \<not> no_faults c" by (simp add: no_faults_def)
    show "320 \<le> length (entropy1 @ entropy2)" by (simp add: length_entropy)
    show "distinct (addresses_of 10 (entropy1 @ entropy2))"
      unfolding addresses_entropy1 by simp
    show "set (addresses_of 10 (entropy1 @ entropy2)) \<inter> set (map w_address (wallets empty_database)) = {}"
      by (simp add: empty_database_def)
  qed
  then show ?thesis
    by (simp add: first_start_def empty_database_def length_entropy)
qed

section \<open>The claims\<close>

lemmas ledger_defs = ledger_def W1_def W2_def unknown_address_def

lemmas Send_defs = Send_def Send_body_def tx_Begin_def tx_Exec_def tx_Commit_def tx_Rollback_def
  select_balance_def update_balance_def insert_transaction_def no_faults_def

text \<open>
  Claim C1, as stated, fails: \<open>PostgresRepository.Send\<close> has no check of the amount.
  On the example ledger \<open>Send(W1, W2, 0)\<close> returns \<open>nil\<close> and appends a record with
  amount 0.
\<close>

theorem Send_accepts_zero_amount:
  "Send no_faults 7 ledger W1 W2 0 =
     (None, ledger\<lparr>transactions := [\<lparr>t_id = 1, t_from_address = W1, t_to_address = W2,
                                         t_amount = 0, t_timestamp = 7\<rparr>],
                   transactions_id_seq := 1\<rparr>)"
  by (simp add: Send_defs ledger_defs)

text \<open>
  Claim C1, amended: the amount is checked by \<open>SendHandler\<close>. A request whose body
  decodes to an amount \<open>\<le> 0\<close> never reaches the service, whatever the store would do:
  the ledger is unchanged, and a \<open>POST\<close> with \<open>Content-Type: application/json\<close> is
  answered with status 400 and the text \<open>Amount must be greater than 0\<close>.
\<close>

theorem SendHandler_rejects_amount_not_positive:
  assumes "Body r = Some req" "req_Amount req \<le> 0"
  shows "snd (SendHandler flt now db r) = db
         \<and> (Method r = ''POST'' \<and> ContentType r = ''application/json'' \<longrightarrow>
              fst (SendHandler flt now db r) = Response 400 (Plain ''Amount must be greater than 0''))"
  using assms by (simp add: SendHandler_def)

text \<open>Claim C1, amended, on the request to send 0 from \<open>W1\<close> to \<open>W2\<close>.\<close>

theorem SendHandler_rejects_amount_not_positive_witness:
  "Body zero_request = Some \<lparr>req_From = W1, req_To = W2, req_Amount = 0\<rparr>
   \<and> req_Amount \<lparr>req_From = W1, req_To = W2, req_Amount = 0\<rparr> \<le> 0
   \<and> Method zero_request = ''POST'' \<and> ContentType zero_request = ''application/json''
   \<and> SendHandler no_faults 7 ledger zero_request =
       (Response 400 (Plain ''Amount must be greater than 0''), ledger)"
proof -
  have h: "Body zero_request = Some \<lparr>req_From = W1, req_To = W2, req_Amount = 0\<rparr>"
      "req_Amount \<lparr>req_From = W1, req_To = W2, req_Amount = 0\<rparr> \<le> 0"
    by (simp_all add: zero_request_def)
  have m: "Method zero_request = ''POST''" "ContentType zero_request = ''application/json''"
    by (simp_all add: zero_request_def)
  from SendHandler_rejects_amount_not_positive [OF h, of no_faults 7 ledger] m
  have "SendHandler no_faults 7 ledger zero_request =
          (Response 400 (Plain ''Amount must be greater than 0''), ledger)"
    by (simp add: prod_eq_iff)
  with h m show ?thesis by simp
qed

text \<open>
  Claim C2: a transfer to an address that has no wallet must fail with \<open>NotFound\<close> and
  leave the ledger as it was. The code does not: the \<open>UPDATE\<close> of the receiver matches
  no row, which is not an error, and the unit is committed. On the example ledger
  \<open>Send(W1, unknown_address, 10)\<close> returns \<open>nil\<close>, the balance of \<open>W1\<close> drops to 90
  and a record is appended.
\<close>

theorem Send_unknown_receiver_succeeds:
  "Send no_faults 7 ledger W1 unknown_address 10 =
     (None, \<lparr>wallets = [\<lparr>w_address = W1, w_balance = 90\<rparr>, \<lparr>w_address = W2, w_balance = 0\<rparr>],
             transactions = [\<lparr>t_id = 1, t_from_address = W1, t_to_address = unknown_address,
                              t_amount = 10, t_timestamp = 7\<rparr>],
             transactions_id_seq = 1\<rparr>)"
  by (simp add: Send_defs ledger_defs)

text \<open>
  Claim C3, as stated, fails on the tie-break: the query orders by \<open>timestamp\<close> alone.
  Two transfers with the same clock reading get the ids 1 and 2; when the executor
  delivers the rows in insertion order, the answer lists id 1 before id 2, and it lists
  id 2 before id 1 when the rows are delivered in the opposite order. The order of the
  ids is not fixed by the code.
\<close>

theorem GetLastTransactions_tie_not_broken_by_id:
  "transactions tied_transfers =
     [\<lparr>t_id = 1, t_from_address = W1, t_to_address = W2, t_amount = 1, t_timestamp = 5\<rparr>,
      \<lparr>t_id = 2, t_from_address = W1, t_to_address = W2, t_amount = 2, t_timestamp = 5\<rparr>]
   \<and> GetLastTransactions no_faults id tied_transfers 2 =
       Inr [\<lparr>From = W1, To = W2, Amount = 1, CreatedAt = 5\<rparr>,
            \<lparr>From = W1, To = W2, Amount = 2, CreatedAt = 5\<rparr>]
   \<and> GetLastTransactions no_faults rev tied_transfers 2 =
       Inr [\<lparr>From = W1, To = W2, Amount = 2, CreatedAt = 5\<rparr>,
            \<lparr>From = W1, To = W2, Amount = 1, CreatedAt = 5\<rparr>]"
  by (simp add: tied_transfers_def Service_Send_def Send_defs ledger_defs
      GetLastTransactions_def query_transactions_def Scan_def)

text \<open>
  Claim C3, amended: for every limit \<open>> 0\<close> and every state of the table, when no call
  fails, \<open>GetLastTransactions\<close> returns \<open>min limit n\<close> of the \<open>n\<close> records, ordered by
  timestamp descending, and no record left out is more recent than a record returned.
  The order among records with equal timestamps is whatever order the executor
  delivers. When the timestamps are pairwise different the answer is the table sorted
  by timestamp, most recent first, cut at the limit; so after the transfers \<open>T1\<close>
  (earliest), \<open>T2\<close>, \<open>T3\<close> (latest) the answer to limit 3 is \<open>[T3, T2, T1]\<close>.
\<close>

theorem GetLastTransactions_most_recent_first:
  assumes "\<not> flt QueryTransactions" "\<forall>i. \<not> flt (ScanRow i)" "\<not> flt RowsErr"
      and "0 < cnt" "mset (emit (transactions db)) = mset (transactions db)"
  shows "\<exists>rows. GetLastTransactions flt emit db cnt = Inr (map Scan rows)
           \<and> length rows = min (nat cnt) (length (transactions db))
           \<and> mset rows \<subseteq># mset (transactions db)
           \<and> sorted_wrt (\<lambda>r s. t_timestamp s \<le> t_timestamp r) rows
           \<and> (\<forall>r\<in>set rows. \<forall>s\<in>#mset (transactions db) - mset rows. t_timestamp s \<le> t_timestamp r)
           \<and> (distinct (map t_timestamp (transactions db)) \<longrightarrow>
                rows = take (nat cnt) (rev (sort_key t_timestamp (transactions db))))"
proof -
  define ys where "ys = sort_key (\<lambda>r. - t_timestamp r) (emit (transactions db))"
  define rows where "rows = take (nat cnt) ys"
  have ys: "mset ys = mset (transactions db)"
    using assms(5) by (simp add: ys_def)
  have sorted: "sorted_wrt (\<lambda>r s. t_timestamp s \<le> t_timestamp r) ys"
    unfolding ys_def by (rule most_recent_first_sorted)
  have split: "mset (transactions db) = mset rows + mset (drop (nat cnt) ys)"
    unfolding rows_def ys [symmetric] by (simp add: union_code)
  have 1: "GetLastTransactions flt emit db cnt = Inr (map Scan rows)"
    using assms(1-4)
    by (simp add: GetLastTransactions_def query_transactions_def scan_rows_no_faults rows_def ys_def)
  have 2: "length rows = min (nat cnt) (length (transactions db))"
    using mset_eq_length [OF ys] by (simp add: rows_def)
  have 3: "mset rows \<subseteq># mset (transactions db)"
    unfolding split by simp
  have 4: "sorted_wrt (\<lambda>r s. t_timestamp s \<le> t_timestamp r) rows"
    unfolding rows_def using sorted by (rule sorted_wrt_take)
  have 5: "\<forall>r\<in>set rows. \<forall>s\<in>#mset (transactions db) - mset rows. t_timestamp s \<le> t_timestamp r"
    unfolding split using take_sorted_bounds [OF sorted, of "nat cnt"] by (simp add: rows_def)
  have 6: "rows = take (nat cnt) (rev (sort_key t_timestamp (transactions db)))"
    if "distinct (map t_timestamp (transactions db))"
    unfolding rows_def ys_def using assms(5) that by (simp add: most_recent_first_unique)
  from 1 2 3 4 5 6 show ?thesis by blast
qed

text \<open>Claim C3, amended, on the three transfers \<open>T1\<close>, \<open>T2\<close>, \<open>T3\<close>, the rows delivered
  oldest last: the answer is \<open>[T3, T2, T1]\<close>.\<close>

theorem GetLastTransactions_most_recent_first_witness:
  "\<not> no_faults QueryTransactions \<and> (\<forall>i. \<not> no_faults (ScanRow i)) \<and> \<not> no_faults RowsErr
   \<and> (0::int) < 3 \<and> mset (rev (transactions three_transfers)) = mset (transactions three_transfers)
   \<and> GetLastTransactions no_faults rev three_transfers 3 =
       Inr [\<lparr>From = W1, To = W2, Amount = 20, CreatedAt = 3\<rparr>,
            \<lparr>From = W2, To = W1, Amount = 5, CreatedAt = 2\<rparr>,
            \<lparr>From = W1, To = W2, Amount = 10, CreatedAt = 1\<rparr>]"
proof -
  have h: "\<not> no_faults QueryTransactions" "\<forall>i. \<not> no_faults (ScanRow i)" "\<not> no_faults RowsErr"
      "(0::int) < 3" "mset (rev (transactions three_transfers)) = mset (transactions three_transfers)"
    by (simp_all add: no_faults_def)
  have tx: "transactions three_transfers =
      [\<lparr>t_id = 1, t_from_address = W1, t_to_address = W2, t_amount = 10, t_timestamp = 1\<rparr>,
       \<lparr>t_id = 2, t_from_address = W2, t_to_address = W1, t_amount = 5, t_timestamp = 2\<rparr>,
       \<lparr>t_id = 3, t_from_address = W1, t_to_address = W2, t_amount = 20, t_timestamp = 3\<rparr>]"
    by (simp add: three_transfers_def Service_Send_def Send_defs ledger_defs)
  from GetLastTransactions_most_recent_first
         [where flt = no_faults and emit = rev and db = three_transfers and cnt = 3, OF h]
  obtain rows
    where r: "GetLastTransactions no_faults rev three_transfers 3 = Inr (map Scan rows)"
      and d: "distinct (map t_timestamp (transactions three_transfers)) \<longrightarrow>
              rows = take (nat 3) (rev (sort_key t_timestamp (transactions three_transfers)))"
    by blast
  from d have "rows = rev (transactions three_transfers)"
    by (simp add: tx)
  with r have "GetLastTransactions no_faults rev three_transfers 3 =
       Inr [\<lparr>From = W1, To = W2, Amount = 20, CreatedAt = 3\<rparr>,
            \<lparr>From = W2, To = W1, Amount = 5, CreatedAt = 2\<rparr>,
            \<lparr>From = W1, To = W2, Amount = 10, CreatedAt = 1\<rparr>]"
    by (simp add: tx Scan_def)
  with h show ?thesis by simp
qed

text \<open>
  Claim C4: a second run of the seeding must leave the 10 seeded wallets as they are.
  The code does not: \<open>NewPostgresRepository\<close> calls \<open>generateWallets(db, 10, 100.0)\<close>
  at every start without looking at the table, each wallet gets a new random address,
  and \<open>ON CONFLICT DO NOTHING\<close> holds back only an address that is already there. After
  the first start the table has 10 wallets, after the second 20.
\<close>

theorem seeding_twice_doubles:
  "fst first_start = Return () \<and> length (wallets (fst (snd first_start))) = 10
   \<and> fst second_start = Return () \<and> length (wallets (fst (snd second_start))) = 20"
proof -
  let ?db1 = "fst (snd first_start)"
  have db1: "map w_address (wallets ?db1) = addresses_of 10 (entropy1 @ entropy2)"
    by (simp add: first_start_eq comp_def)
  have rnd: "snd (snd first_start) = entropy2"
    by (simp add: first_start_eq)
  have "NewPostgresRepository no_faults ?db1 entropy2 =
          (Return (),
           ?db1\<lparr>wallets := wallets ?db1 @
              map (\<lambda>a. \<lparr>w_address = a, w_balance = 100\<rparr>) (addresses_of 10 entropy2)\<rparr>,
           drop 320 entropy2)"
  proof (rule NewPostgresRepository_fresh)
    show "\<forall>c. \<not> no_faults c" by (simp add: no_faults_def)
    show "320 \<le> length entropy2" by (simp add: length_entropy)
    show "distinct (addresses_of 10 entropy2)"
      unfolding addresses_entropy2 by simp
    show "set (addresses_of 10 entropy2) \<inter> set (map w_address (wallets ?db1)) = {}"
      unfolding db1 addresses_entropy1 addresses_entropy2 by simp
  qed
  then have second: "second_start =
          (Return (),
           ?db1\<lparr>wallets := wallets ?db1 @
              map (\<lambda>a. \<lparr>w_address = a, w_balance = 100\<rparr>) (addresses_of 10 entropy2)\<rparr>,
           drop 320 entropy2)"
    by (simp add: second_start_def rnd)
  have "length (addresses_of 10 rnd) = 10" for rnd
    by (simp add: addresses_of_numeral)
  then have "length (wallets ?db1) = 10" "length (wallets (fst (snd second_start))) = 20"
    unfolding second by (simp_all add: first_start_eq)
  then show ?thesis
    unfolding second by (simp add: first_start_eq)
qed

text \<open>
  Claim C5: a \<open>Send\<close> that returns an error, at whatever stage and whatever calls
  failed, leaves the wallet table and the transaction table exactly as they were.
\<close>

theorem Send_error_leaves_tables:
  assumes "Send flt now db from to amount = (Some e, db')"
  shows "wallets db' = wallets db \<and> transactions db' = transactions db"
  using assms by (rule Send_error_rolls_back)

text \<open>Claim C5 on a transfer whose \<open>Commit\<close> fails, after both balances were updated
  and the record was inserted: the tables are as before, the sequence has moved on.\<close>

theorem Send_error_leaves_tables_witness:
  "Send commit_fails 7 ledger W1 W2 30 = (Some CommitError, ledger\<lparr>transactions_id_seq := 1\<rparr>)
   \<and> wallets (ledger\<lparr>transactions_id_seq := 1\<rparr>) = wallets ledger
   \<and> transactions (ledger\<lparr>transactions_id_seq := 1\<rparr>) = transactions ledger"
proof -
  have s: "Send commit_fails 7 ledger W1 W2 30 = (Some CommitError, ledger\<lparr>transactions_id_seq := 1\<rparr>)"
    by (simp add: Send_defs commit_fails_def ledger_defs)
  from s Send_error_leaves_tables [OF s] show ?thesis by simp
qed

text \<open>
  Claim C6: every successful transfer from \<open>A\<close> to \<open>B \<noteq> A\<close> must leave the sum of all
  balances as it was. The code does not when \<open>B\<close> has no wallet: the transfer of claim
  C2 succeeds, \<open>W1\<close> loses 10, no wallet gains them, and the sum of the balances drops
  from 100 to 90.
\<close>

theorem Send_unknown_receiver_loses_funds:
  "fst (Send no_faults 7 ledger W1 unknown_address 10) = None
   \<and> W1 \<noteq> unknown_address
   \<and> total_balance ledger = 100
   \<and> total_balance (snd (Send no_faults 7 ledger W1 unknown_address 10)) = 90"
  by (simp add: Send_defs ledger_defs total_balance_def)




text \<open>
  Claim C8: when the sender exists with balance \<open>b\<close>, the amount is positive and the
  store answers \<open>Begin\<close> and the query of the balance, \<open>Send\<close> fails with
  \<open>insufficient funds\<close> if and only if \<open>b < amount\<close>; a transfer of exactly \<open>b\<close> does
  not fail so.
\<close>

theorem InsufficientFunds_iff:
  assumes "select_balance db from = Inr b" "0 < amount"
      and "\<not> flt Begin" "\<not> flt SelectSenderBalance"
  shows "(fst (Send flt now db from to amount) = Some InsufficientFunds) = (b < amount)
         \<and> (amount = b \<longrightarrow> fst (Send flt now db from to amount) \<noteq> Some InsufficientFunds)"
  using assms
  by (auto simp add: Send_def Send_body_def tx_Begin_def Let_def split: prod.splits)

text \<open>Claim C8 on the transfer of the whole balance of \<open>W1\<close>, which succeeds.\<close>

theorem InsufficientFunds_iff_witness:
  "select_balance ledger W1 = Inr 100 \<and> (0::real) < 100
   \<and> \<not> no_faults Begin \<and> \<not> no_faults SelectSenderBalance
   \<and> fst (Send no_faults 7 ledger W1 W2 100) \<noteq> Some InsufficientFunds
   \<and> fst (Send no_faults 7 ledger W1 W2 100) = None
   \<and> fst (Send no_faults 7 ledger W1 W2 101) = Some InsufficientFunds"
proof -
  have h: "select_balance ledger W1 = Inr 100" "(0::real) < 100"
      "\<not> no_faults Begin" "\<not> no_faults SelectSenderBalance"
    by (simp_all add: select_balance_def ledger_defs no_faults_def)
  have "fst (Send no_faults 7 ledger W1 W2 100) = None"
       "fst (Send no_faults 7 ledger W1 W2 101) = Some InsufficientFunds"
    by (simp_all add: Send_defs ledger_defs)
  with h InsufficientFunds_iff [OF h, of 7 W2] show ?thesis by simp
qed

text \<open>
  Claim C9: an address that \<open>GenerateAddress\<close> returns has exactly 64 characters, each a
  lowercase hexadecimal digit, and is the hex encoding of the 32 bytes read from the
  random source.
\<close>

theorem GenerateAddress_hex:
  assumes "GenerateAddress rnd = Inr (address, rnd')"
  shows "length address = 64
         \<and> list_all (\<lambda>c. c \<in> set ''0123456789abcdef'') address
         \<and> address = EncodeToString (take 32 rnd)
         \<and> 32 \<le> length rnd \<and> rnd' = drop 32 rnd"
proof -
  from assms
  have a: "32 \<le> length rnd" "address = EncodeToString (take 32 rnd)" "rnd' = drop 32 rnd"
    by (auto simp: GenerateAddress_def rand_Read_def split: if_splits)
  then have "length address = 64" by (simp add: length_EncodeToString)
  moreover have "list_all (\<lambda>c. c \<in> set ''0123456789abcdef'') address"
    using set_EncodeToString [of "take 32 rnd"] a(2)
    unfolding list_all_iff hextable_def by blast
  ultimately show ?thesis using a by simp
qed

text \<open>Claim C9 on a source that delivers the 33 bytes of \<open>sample_bytes\<close>.\<close>

theorem GenerateAddress_hex_witness:
  "GenerateAddress sample_bytes =
     Inr (''000123456789abcdefff102030405060708090a0b0c0d0e0f00f1e2d3c4b5a69'', [0x78])
   \<and> length ''000123456789abcdefff102030405060708090a0b0c0d0e0f00f1e2d3c4b5a69'' = 64
   \<and> list_all (\<lambda>c. c \<in> set ''0123456789abcdef'')
        ''000123456789abcdefff102030405060708090a0b0c0d0e0f00f1e2d3c4b5a69''"
proof -
  from GenerateAddress_hex [OF GenerateAddress_sample]
  have "length ''000123456789abcdefff102030405060708090a0b0c0d0e0f00f1e2d3c4b5a69'' = 64"
    and "list_all (\<lambda>c. c \<in> set ''0123456789abcdef'')
           ''000123456789abcdefff102030405060708090a0b0c0d0e0f00f1e2d3c4b5a69''"
    by blast+
  with GenerateAddress_sample show ?thesis by blast
qed



section \<open>Further properties of the transfer\<close>

text \<open>
  Between two wallets that both exist the transfer is exact: a successful
  \<open>Send(A, B, a)\<close> with \<open>A \<noteq> B\<close> takes \<open>a\<close> from the balance of \<open>A\<close>, adds \<open>a\<close> to the
  balance of \<open>B\<close>, keeps the sum of all balances and appends one record.
\<close>

theorem Send_conserves:
  assumes "primary_key db" "Send flt now db from to amount = (None, db')"
      and "from \<noteq> to" "select_balance db to = Inr c"
  shows "\<exists>b. select_balance db from = Inr b
           \<and> select_balance db' from = Inr (b - amount)
           \<and> select_balance db' to = Inr (c + amount)
           \<and> total_balance db' = total_balance db
           \<and> transactions db' = transactions db @
                [\<lparr>t_id = Suc (transactions_id_seq db), t_from_address = from, t_to_address = to,
                  t_amount = amount, t_timestamp = now\<rparr>]"
proof -
  from Send_success_funds [OF assms(2)] obtain b where b: "select_balance db from = Inr b"
    by blast
  let ?debit = "update_balance (\<lambda>b. b - amount) from db"
  let ?credit = "update_balance (\<lambda>b. b + amount) to ?debit"
  have db': "db' = insert_transaction now from to amount ?credit"
    using assms(2) by (rule Send_success)
  have pk: "primary_key ?debit"
    using assms(1) by (simp add: primary_key_def addresses_update_balance)
  have c: "select_balance ?debit to = Inr c"
    using assms(3,4) by (simp add: select_balance_update)
  have "total_balance ?debit = total_balance db - b + (b - amount)"
    using assms(1) b by (rule total_balance_update)
  moreover have "total_balance ?credit = total_balance ?debit - c + (c + amount)"
    using pk c by (rule total_balance_update)
  ultimately have total: "total_balance ?credit = total_balance db"
    by simp
  have "select_balance db' from = Inr (b - amount)" "select_balance db' to = Inr (c + amount)"
    using assms(3,4) b
    by (simp_all add: db' select_balance_insert_transaction select_balance_update)
  moreover have "total_balance db' = total_balance db"
    using total by (simp add: db' total_balance_def insert_transaction_def)
  moreover have "transactions db' = transactions db @
      [\<lparr>t_id = Suc (transactions_id_seq db), t_from_address = from, t_to_address = to,
        t_amount = amount, t_timestamp = now\<rparr>]"
    by (simp add: db' insert_transaction_def update_balance_def)
  ultimately show ?thesis using b by blast
qed

text \<open>The scenario of the specification: \<open>W1\<close> holds 100, \<open>W2\<close> holds 0, and
  \<open>Send(W1, W2, 30)\<close> leaves 70 and 30 and one record.\<close>

theorem Send_conserves_witness:
  "primary_key ledger
   \<and> Send no_faults 7 ledger W1 W2 30 =
       (None, \<lparr>wallets = [\<lparr>w_address = W1, w_balance = 70\<rparr>, \<lparr>w_address = W2, w_balance = 30\<rparr>],
               transactions = [\<lparr>t_id = 1, t_from_address = W1, t_to_address = W2,
                                t_amount = 30, t_timestamp = 7\<rparr>],
               transactions_id_seq = 1\<rparr>)
   \<and> W1 \<noteq> W2 \<and> select_balance ledger W2 = Inr 0
   \<and> total_balance (snd (Send no_faults 7 ledger W1 W2 30)) = total_balance ledger"
proof -
  have h: "primary_key ledger"
      "Send no_faults 7 ledger W1 W2 30 =
       (None, \<lparr>wallets = [\<lparr>w_address = W1, w_balance = 70\<rparr>, \<lparr>w_address = W2, w_balance = 30\<rparr>],
               transactions = [\<lparr>t_id = 1, t_from_address = W1, t_to_address = W2,
                                t_amount = 30, t_timestamp = 7\<rparr>],
               transactions_id_seq = 1\<rparr>)"
      "W1 \<noteq> W2" "select_balance ledger W2 = Inr 0"
    by (simp_all add: primary_key_def Send_defs ledger_defs)
  from Send_conserves [OF h] h show ?thesis by auto
qed

text \<open>
  Through the handler no amount can make a balance negative: whatever the request and
  whatever calls fail, \<open>SendHandler\<close> takes a ledger with non-negative balances to a
  ledger with non-negative balances.
\<close>

theorem SendHandler_solvent:
  assumes "primary_key db" "solvent db"
  shows "primary_key (snd (SendHandler flt now db r)) \<and> solvent (snd (SendHandler flt now db r))"
proof (cases "Body r")
  case None
  with assms show ?thesis by (simp add: SendHandler_def)
next
  case (Some req)
  show ?thesis
  proof (cases "Method r = ''POST'' \<and> ContentType r = ''application/json'' \<and> 0 < req_Amount req
                \<and> isValidAddress (req_From req) \<and> isValidAddress (req_To req)")
    case False
    with Some assms show ?thesis by (auto simp add: SendHandler_def)
  next
    case True
    obtain err db' where s: "Send flt now db (req_From req) (req_To req) (req_Amount req) = (err, db')"
      by (cases "Send flt now db (req_From req) (req_To req) (req_Amount req)")
    from True have "0 \<le> req_Amount req" by simp
    with assms have "primary_key db' \<and> solvent db'"
      using s by (rule Send_invariant)
    moreover from True Some s have "snd (SendHandler flt now db r) = db'"
      by (simp add: SendHandler_def Service_Send_def split: option.splits)
    ultimately show ?thesis by simp
  qed
qed

text \<open>The request to send 30 from \<open>W1\<close> to \<open>W2\<close> is answered with status 200 and
  leaves the balances 70 and 30.\<close>

theorem SendHandler_solvent_witness:
  "primary_key ledger \<and> solvent ledger
   \<and> SendHandler no_faults 7 ledger transfer_request =
       (Response 200 (Plain []),
        \<lparr>wallets = [\<lparr>w_address = W1, w_balance = 70\<rparr>, \<lparr>w_address = W2, w_balance = 30\<rparr>],
         transactions = [\<lparr>t_id = 1, t_from_address = W1, t_to_address = W2,
                          t_amount = 30, t_timestamp = 7\<rparr>],
         transactions_id_seq = 1\<rparr>)
   \<and> solvent (snd (SendHandler no_faults 7 ledger transfer_request))"
proof -
  have h: "primary_key ledger" "solvent ledger"
    by (simp_all add: primary_key_def solvent_def ledger_defs)
  have "SendHandler no_faults 7 ledger transfer_request =
       (Response 200 (Plain []),
        \<lparr>wallets = [\<lparr>w_address = W1, w_balance = 70\<rparr>, \<lparr>w_address = W2, w_balance = 30\<rparr>],
         transactions = [\<lparr>t_id = 1, t_from_address = W1, t_to_address = W2,
                          t_amount = 30, t_timestamp = 7\<rparr>],
         transactions_id_seq = 1\<rparr>)"
    by (simp add: SendHandler_def transfer_request_def isValidAddress_def fromHexChar_def
        Service_Send_def Send_defs ledger_defs)
  with h SendHandler_solvent [OF h, of no_faults 7 transfer_request] show ?thesis by simp
qed

end
